theory Spec2Isabelle
  imports Main
begin

section \<open>JavaScript values used by the authentication service\<close>

text \<open>
  Optional fields (\<open>email?: string\<close>) are \<open>option\<close> values: \<open>None\<close> is
  \<open>undefined\<close>. A string is falsy when it is \<open>undefined\<close> or empty, and
  \<open>x || ""\<close>, \<open>x || false\<close> and \<open>!!x\<close> are written out below.
\<close>

definition truthy :: "string option \<Rightarrow> bool" where
  "truthy s = (case s of None \<Rightarrow> False | Some v \<Rightarrow> v \<noteq> [])"

definition or_empty :: "string option \<Rightarrow> string" where
  "or_empty s = (case s of None \<Rightarrow> [] | Some v \<Rightarrow> v)"

definition or_false :: "bool option \<Rightarrow> bool" where
  "or_false b = (case b of None \<Rightarrow> False | Some v \<Rightarrow> v)"

text \<open>\<open>s.split("|")[0]\<close>: the part of \<open>s\<close> before the first separator.\<close>

definition split_first :: "char \<Rightarrow> string \<Rightarrow> string" where
  "split_first sep s = takeWhile (\<lambda>c. c \<noteq> sep) s"

text \<open>
  An object with an identity: the allocation number and the (immutable) content. Two
  references are the same instance exactly when the pairs are equal.
\<close>

type_synonym 'a obj = "nat \<times> 'a"

section \<open>Data model\<close>

record JWTInfo =
  info_email :: "string option"
  info_verified :: "bool option"
  info_name :: "string option"
  info_method :: "string option"

record IdToken =
  email :: "string option"
  email_verified :: "bool option"
  given_name :: "string option"
  sub :: "string option"

text \<open>
  The types of \<open>types/user\<close>, \<open>types/organization\<close>, \<open>types/audit\<close> and
  \<open>types/AuthRequest\<close> are read off the fields that the functions below use.
\<close>

record UserInterface =
  user_id :: string
  user_email :: string
  user_name :: string
  user_verified :: bool
  user_admin :: "bool option"

type_synonym MemberRole = string

record Member =
  member_id :: string
  member_role :: MemberRole

record OrganizationInterface =
  org_id :: string
  members :: "Member list"

type_synonym Permissions = "string \<Rightarrow> bool"

text \<open>
  The two closures that \<open>processJWT\<close> can install as \<open>req.audit\<close>: the one that
  captured the resolved user, and the one that throws.
\<close>

datatype audit_closure = AuditAs UserInterface | AuditNoUser

record AuthRequest =
  req_user :: IdToken
  headers :: "string \<rightharpoonup> string"
  req_email :: string
  req_name :: string
  req_verified :: bool
  req_loginMethod :: string
  req_permissions :: Permissions
  req_userId :: "string option"
  req_admin :: "bool option"
  req_organization :: "OrganizationInterface option"
  req_audit :: "audit_closure option"

record AuditInterface =
  audit_data :: "string \<rightharpoonup> string"
  audit_user :: "string \<times> string \<times> string"
  audit_organization :: "string option"
  audit_dateCreated :: nat

datatype error =
    MustSpecifyJWTSecret
  | NoEmailInIdToken
  | NoPermission
  | NoUserInRequest
  | PasswordEmpty
  | PasswordTooShort
  | UnknownSSOConnection
  | MissingSSOMetadata
  | NoMetadataOrAuthority
  | DiscoveryFailed

definition quoted :: "string \<Rightarrow> string" where
  "quoted s = CHR 0x27 # s @ [CHR 0x27]"

fun error_message :: "error \<Rightarrow> string" where
  "error_message MustSpecifyJWTSecret = ''Must specify JWT_SECRET environment variable''"
| "error_message NoEmailInIdToken = ''Id token does not contain email address''"
| "error_message NoPermission = ''You do not have permission to complete that action.''"
| "error_message NoUserInRequest = ''No user in request''"
| "error_message PasswordEmpty = ''Password cannot be empty''"
| "error_message PasswordTooShort = ''Password must be at least 8 characters.''"
| "error_message UnknownSSOConnection = ''Unknown SSO Connection''"
| "error_message MissingSSOMetadata =
     ''Missing SSO metadata: '' @ quoted ''issuer'' @ '', '' @ quoted ''jwks_uri'' @
     '', and/or '' @ quoted ''id_token_signing_alg_values_supported''"
| "error_message NoMetadataOrAuthority = ''Must have either metadata OR authority for SSO config''"
| "error_message DiscoveryFailed = ''Issuer.discover rejected''"

text \<open>The error classes of the specification.\<close>

datatype error_class = ConfigError | ClaimsError | PolicyViolation | NoUserError | DiscoveryError

fun error_class_of :: "error \<Rightarrow> error_class" where
  "error_class_of MustSpecifyJWTSecret = ConfigError"
| "error_class_of NoEmailInIdToken = ClaimsError"
| "error_class_of NoPermission = PolicyViolation"
| "error_class_of NoUserInRequest = NoUserError"
| "error_class_of PasswordEmpty = PolicyViolation"
| "error_class_of PasswordTooShort = PolicyViolation"
| "error_class_of UnknownSSOConnection = ConfigError"
| "error_class_of MissingSSOMetadata = ConfigError"
| "error_class_of NoMetadataOrAuthority = ConfigError"
| "error_class_of DiscoveryFailed = DiscoveryError"

record IssuerMetadata =
  issuer :: "string option"
  jwks_uri :: "string option"
  id_token_signing_alg_values_supported :: "string list option"

text \<open>
  Modelled from the spec: the declaration of \<open>SSOConnectionParams\<close> is missing from
  \<open>types/sso-connection\<close> (only \<open>SSOConnectionInterface\<close> is there). Its fields are
  those of the specification's connection configuration: identifier, authority URL, client
  identifier, optional organization scope, optional email-domain restriction, optional
  inline provider metadata and optional identity-provider type tag. The authority is
  optional because \<open>getMetadata\<close> tests it.
\<close>

record SSOConnectionParams =
  conn_id :: "string option"
  authority :: "string option"
  clientId :: string
  organization :: "string option"
  emailDomain :: "string option"
  idpType :: "string option"
  metadata :: "IssuerMetadata obj option"

section \<open>Environment: configuration constants and collaborators\<close>

text \<open>
  \<open>IS_CLOUD\<close>, \<open>JWT_SECRET\<close> and \<open>SSO_CONFIG\<close> come from \<open>util/secrets\<close>; the
  other fields are the imported functions of the user, organization and SSO connection
  stores, the login policy, the discovery client and \<open>JSON.stringify\<close>. They are
  parameters of every function below. \<open>validateLogin\<close> returns the message of the error
  it throws, \<open>discover\<close> returns \<open>None\<close> when the discovery request is rejected.
\<close>

record env =
  IS_CLOUD :: bool
  JWT_SECRET :: "string option"
  SSO_CONFIG :: "SSOConnectionParams option"
  getUserByEmail :: "string \<Rightarrow> UserInterface option"
  getOrganizationById :: "string \<Rightarrow> OrganizationInterface option"
  getSSOConnectionById :: "string \<Rightarrow> SSOConnectionParams option"
  validateLogin :: "AuthRequest \<Rightarrow> OrganizationInterface \<Rightarrow> string option"
  getRole :: "OrganizationInterface \<Rightarrow> string \<Rightarrow> MemberRole"
  getDefaultPermissions :: Permissions
  getPermissionsByRole :: "MemberRole \<Rightarrow> Permissions"
  discover :: "string \<Rightarrow> IssuerMetadata option"
  JSON_stringify :: "SSOConnectionParams \<Rightarrow> string"

text \<open>The calls that \<open>processJWT\<close> makes to its collaborators, in order.\<close>

datatype call =
    Call_getDefaultPermissions
  | Call_getUserByEmail string
  | Call_markUserAsVerified string
  | Call_getOrganizationById string
  | Call_validateLogin string
  | Call_getRole string string
  | Call_getPermissionsByRole MemberRole

record json_body =
  status :: nat
  message :: string

text \<open>
  How a middleware ends: \<open>res.status(n).json(body)\<close>, \<open>next()\<close>, or a thrown error
  (a rejected promise).
\<close>

datatype outcome = Responded nat json_body | Next | Throws error

section \<open>Authorization derivation\<close>

definition getUserFromJWT :: "env \<Rightarrow> IdToken \<Rightarrow> (error + UserInterface option) \<times> call list" where
  "getUserFromJWT e token =
     (if \<not> truthy (email token) then (Inl NoEmailInIdToken, [])
      else (Inr (getUserByEmail e (or_empty (email token))),
            [Call_getUserByEmail (or_empty (email token))]))"

definition getInitialDataFromJWT :: "env \<Rightarrow> IdToken \<Rightarrow> JWTInfo" where
  "getInitialDataFromJWT e user =
     (let method = (if IS_CLOUD e
                    then (case sub user of None \<Rightarrow> [] | Some s \<Rightarrow> split_first (CHR ''|'') s)
                    else ''local'')
      in \<lparr> info_email = Some (or_empty (email user)),
           info_verified = Some (or_false (email_verified user)),
           info_name = Some (or_empty (given_name user)),
           info_method = Some method \<rparr>)"

text \<open>\<open>req.checkPermissions\<close>: reads \<open>req.permissions\<close> at the time of the call.\<close>

fun checkPermissions :: "AuthRequest \<Rightarrow> string list \<Rightarrow> error option" where
  "checkPermissions req [] = None"
| "checkPermissions req (p # ps) =
     (if \<not> req_permissions req p then Some NoPermission else checkPermissions req ps)"

text \<open>
  Lines 134 to 171 of \<open>processJWT\<close>: the organization header. \<open>Inl\<close> is the early
  \<open>return res.status(...).json(...)\<close>.
\<close>

definition resolveOrganization ::
  "env \<Rightarrow> UserInterface \<Rightarrow> AuthRequest \<Rightarrow> (outcome + unit) \<times> AuthRequest \<times> call list" where
  "resolveOrganization e user req =
     (if truthy (headers req ''x-organization'') then
        (let h = or_empty (headers req ''x-organization'');
             req1 = req\<lparr>req_organization := getOrganizationById e h\<rparr>;
             tr1 = [Call_getOrganizationById h]
         in case req_organization req1 of
              Some org \<Rightarrow>
                if req_admin req1 \<noteq> Some True \<and>
                   length (filter (\<lambda>m. Some (member_id m) = req_userId req1) (members org)) = 0
                then (Inl (Responded 403
                        \<lparr>status = 403, message = ''You do not have access to that organization''\<rparr>),
                      req1, tr1)
                else (case validateLogin e req1 org of
                        Some msg \<Rightarrow>
                          (Inl (Responded 403 \<lparr>status = 403, message = msg\<rparr>), req1,
                           tr1 @ [Call_validateLogin (org_id org)])
                      | None \<Rightarrow>
                          if req_admin req1 = Some True
                          then (Inr (), req1\<lparr>req_permissions := getPermissionsByRole e ''admin''\<rparr>,
                                tr1 @ [Call_validateLogin (org_id org),
                                       Call_getPermissionsByRole ''admin''])
                          else (Inr (),
                                req1\<lparr>req_permissions :=
                                       getPermissionsByRole e (getRole e org (user_id user))\<rparr>,
                                tr1 @ [Call_validateLogin (org_id org),
                                       Call_getRole (org_id org) (user_id user),
                                       Call_getPermissionsByRole (getRole e org (user_id user))])
                     )
            | None \<Rightarrow>
                (Inl (Responded 404 \<lparr>status = 404, message = ''Organization not found''\<rparr>),
                 req1, tr1))
      else (Inr (), req, []))"

text \<open>Lines 98 to 104: the claims of the token and the default permissions.\<close>

definition installDefaults :: "env \<Rightarrow> AuthRequest \<Rightarrow> AuthRequest" where
  "installDefaults e req =
     (let info = getInitialDataFromJWT e (req_user req)
      in req\<lparr> req_email := or_empty (info_email info),
              req_name := or_empty (info_name info),
              req_verified := or_false (info_verified info),
              req_loginMethod := or_empty (info_method info),
              req_permissions := getDefaultPermissions e \<rparr>)"

text \<open>Lines 118 to 121: the stored user replaces the identity taken from the token.\<close>

definition attachUser :: "UserInterface \<Rightarrow> AuthRequest \<Rightarrow> AuthRequest" where
  "attachUser user req =
     req\<lparr> req_email := user_email user,
          req_userId := Some (user_id user),
          req_name := user_name user,
          req_admin := Some (or_false (user_admin user)) \<rparr>"

definition processJWT :: "env \<Rightarrow> AuthRequest \<Rightarrow> outcome \<times> AuthRequest \<times> call list" where
  "processJWT e req0 =
     (let req = installDefaults e req0;
          tr = [Call_getDefaultPermissions]
      in case getUserFromJWT e (req_user req) of
           (Inl err, tr1) \<Rightarrow> (Throws err, req, tr @ tr1)
         | (Inr None, tr1) \<Rightarrow> (Next, req\<lparr>req_audit := Some AuditNoUser\<rparr>, tr @ tr1)
         | (Inr (Some user), tr1) \<Rightarrow>
             (let req2 = attachUser user req
              in if IS_CLOUD e \<and> user_verified user \<and> \<not> req_verified req2
                 then (Responded 406
                         \<lparr>status = 406,
                          message = ''You must verify your email address before using GrowthBook''\<rparr>,
                       req2, tr @ tr1)
                 else
                   (let tr2 = (if \<not> user_verified user \<and> req_verified req2
                               then [Call_markUserAsVerified (user_id user)] else [])
                    in case resolveOrganization e user req2 of
                         (Inl response, req3, tr3) \<Rightarrow> (response, req3, tr @ tr1 @ tr2 @ tr3)
                       | (Inr u, req3, tr3) \<Rightarrow>
                           (Next, req3\<lparr>req_audit := Some (AuditAs user)\<rparr>,
                            tr @ tr1 @ tr2 @ tr3))))"

text \<open>
  Invoking the installed \<open>req.audit\<close> with the data and the current time: the document
  handed to \<open>insertAudit\<close>, or the error thrown. An uninstalled capability is not callable.
\<close>

definition audit :: "AuthRequest \<Rightarrow> (string \<rightharpoonup> string) \<Rightarrow> nat \<Rightarrow> (error + AuditInterface) option" where
  "audit req data now =
     (case req_audit req of
        None \<Rightarrow> None
      | Some AuditNoUser \<Rightarrow> Some (Inl NoUserInRequest)
      | Some (AuditAs user) \<Rightarrow>
          Some (Inr \<lparr> audit_data = data,
                      audit_user = (user_id user, user_email user, user_name user),
                      audit_organization = map_option org_id (req_organization req),
                      audit_dateCreated = now \<rparr>))"

definition validatePasswordFormat :: "string option \<Rightarrow> error + string" where
  "validatePasswordFormat password =
     (if \<not> truthy password then Inl PasswordEmpty
      else if length (or_empty password) < 8 then Inl PasswordTooShort
      else Inr (or_empty password))"

text \<open>The write-through calls in a trace.\<close>

fun is_markUserAsVerified :: "call \<Rightarrow> bool" where
  "is_markUserAsVerified (Call_markUserAsVerified u) = True"
| "is_markUserAsVerified c = False"

section \<open>Verification dispatcher\<close>

record jwks_params =
  jwks_cache :: bool
  rateLimit :: bool
  jwksRequestsPerMinute :: nat
  jwksUri :: string

datatype jwt_secret = SharedSecret string | ExpressJwtSecret jwks_params

text \<open>The options that a token-verification middleware of \<open>express-jwt\<close> is built with.\<close>

record jwt_params =
  secret :: jwt_secret
  audience :: string
  jwt_issuer :: string
  algorithms :: "string list"

text \<open>
  What \<open>getJWTCheck\<close> returns: the local verifier, or the handler of
  \<open>getOpenIdJWTCheck\<close> that resolves the verifier for each request.
\<close>

datatype jwt_check = LocalJWTCheck jwt_params | OpenIdJWTCheck

definition getLocalJWTCheck :: "env \<Rightarrow> error + jwt_check" where
  "getLocalJWTCheck e =
     (if \<not> truthy (JWT_SECRET e) then Inl MustSpecifyJWTSecret
      else Inr (LocalJWTCheck
             \<lparr> secret = SharedSecret (or_empty (JWT_SECRET e)),
               audience = ''https://api.growthbook.io'',
               jwt_issuer = ''https://api.growthbook.io'',
               algorithms = [''HS256''] \<rparr>))"

definition getOpenIdJWTCheck :: jwt_check where
  "getOpenIdJWTCheck = OpenIdJWTCheck"

definition usingOpenId :: "env \<Rightarrow> bool" where
  "usingOpenId e = (if IS_CLOUD e then True else if SSO_CONFIG e \<noteq> None then True else False)"

definition getJWTCheck :: "env \<Rightarrow> error + jwt_check" where
  "getJWTCheck e = (if usingOpenId e then Inr getOpenIdJWTCheck else getLocalJWTCheck e)"

section \<open>Connection resolver, metadata cache and verifier cache\<close>

datatype sso_call =
    Call_getSSOConnectionById string
  | Call_discover string
  | Call_jwt jwt_params

text \<open>
  The state of the process: the two module-level maps, the number of objects allocated so
  far (the identity of the next one), the external calls made and the lines written with
  \<open>console.error\<close> (each line is the list of its arguments).
\<close>

record process_state =
  metadataCache :: "string \<rightharpoonup> IssuerMetadata obj"
  ssoMiddlewares :: "string \<rightharpoonup> jwt_params obj"
  allocated :: nat
  sso_calls :: "sso_call list"
  console :: "string list list"

definition getOpenIdSettings ::
  "env \<Rightarrow> AuthRequest \<Rightarrow> process_state \<Rightarrow> SSOConnectionParams option \<times> process_state" where
  "getOpenIdSettings e req st =
     (if \<not> IS_CLOUD e then
        (case SSO_CONFIG e of Some c \<Rightarrow> (Some c, st) | None \<Rightarrow> (None, st))
      else if truthy (headers req ''x-auth-source-id'') then
        (let ssoConnectionId = or_empty (headers req ''x-auth-source-id'');
             st1 = st\<lparr>sso_calls := sso_calls st @ [Call_getSSOConnectionById ssoConnectionId]\<rparr>
         in case getSSOConnectionById e ssoConnectionId of
              None \<Rightarrow>
                (None, st1\<lparr>console := console st1 @
                                [[''Could not find SSO connection - '', ssoConnectionId]]\<rparr>)
            | Some ssoConnection \<Rightarrow> (Some ssoConnection, st1))
      else
        (Some \<lparr> conn_id = Some ''gbcloud'',
                authority = Some ''https://growthbook.auth0.com'',
                clientId = ''5xji4zoOExGgygEFlNXTwAUs3y68zU4D'',
                organization = None, emailDomain = None, idpType = None,
                metadata = None \<rparr>, st))"

definition getMetadata ::
  "env \<Rightarrow> SSOConnectionParams \<Rightarrow> process_state \<Rightarrow> (error + IssuerMetadata obj) \<times> process_state" where
  "getMetadata e params st =
     (case metadata params of
        Some m \<Rightarrow> (Inr m, st)
      | None \<Rightarrow>
          if \<not> truthy (authority params) then (Inl NoMetadataOrAuthority, st)
          else
            (let a = or_empty (authority params) in
             case metadataCache st a of
               Some existing \<Rightarrow> (Inr existing, st)
             | None \<Rightarrow>
                 (let st1 = st\<lparr>sso_calls := sso_calls st @ [Call_discover a]\<rparr> in
                  case discover e a of
                    None \<Rightarrow> (Inl DiscoveryFailed, st1)
                  | Some found \<Rightarrow>
                      (let m = (allocated st1, found) in
                       (Inr m, st1\<lparr> metadataCache := (metadataCache st1)(a \<mapsto> m),
                                     allocated := Suc (allocated st1) \<rparr>)))))"

definition getOpenIdMiddleware ::
  "env \<Rightarrow> AuthRequest \<Rightarrow> process_state \<Rightarrow> (error + jwt_params obj) \<times> process_state" where
  "getOpenIdMiddleware e req st =
     (case getOpenIdSettings e req st of
        (None, st1) \<Rightarrow> (Inl UnknownSSOConnection, st1)
      | (Some ssoConnection, st1) \<Rightarrow>
          (let cacheKey = JSON_stringify e ssoConnection in
           case ssoMiddlewares st1 cacheKey of
             Some existing \<Rightarrow> (Inr existing, st1)
           | None \<Rightarrow>
               (case getMetadata e ssoConnection st1 of
                  (Inl err, st2) \<Rightarrow> (Inl err, st2)
                | (Inr m, st2) \<Rightarrow>
                    if \<not> truthy (jwks_uri (snd m)) \<or>
                       id_token_signing_alg_values_supported (snd m) = None \<or>
                       \<not> truthy (issuer (snd m))
                    then (Inl MissingSSOMetadata, st2)
                    else
                      (let opts = \<lparr> secret = ExpressJwtSecret
                                       \<lparr> jwks_cache = True, rateLimit = True,
                                         jwksRequestsPerMinute = 5,
                                         jwksUri = or_empty (jwks_uri (snd m)) \<rparr>,
                                     audience = clientId ssoConnection,
                                     jwt_issuer = or_empty (issuer (snd m)),
                                     algorithms =
                                       (case id_token_signing_alg_values_supported (snd m) of
                                          Some algs \<Rightarrow> algs | None \<Rightarrow> []) \<rparr>;
                           middleware = (allocated st2, opts)
                       in (Inr middleware,
                           st2\<lparr> ssoMiddlewares := (ssoMiddlewares st2)(cacheKey \<mapsto> middleware),
                                allocated := Suc (allocated st2),
                                sso_calls := sso_calls st2 @ [Call_jwt opts] \<rparr>)))))"

text \<open>
  Running the handler that \<open>getOpenIdJWTCheck\<close> returns on one request: the resolved
  middleware takes the request over, or the rejection goes to \<open>next\<close> as an error.
\<close>

datatype check_outcome = RunsMiddleware "jwt_params obj" | NextWithError error

definition openIdJWTCheck ::
  "env \<Rightarrow> AuthRequest \<Rightarrow> process_state \<Rightarrow> check_outcome \<times> process_state" where
  "openIdJWTCheck e req st =
     (case getOpenIdMiddleware e req st of
        (Inr middleware, st1) \<Rightarrow> (RunsMiddleware middleware, st1)
      | (Inl err, st1) \<Rightarrow> (NextWithError err, st1))"




section \<open>Sample deployments and requests\<close>

text \<open>
  A small world on which the theorems below are evaluated: two stored users (Alice is not
  yet verified, Bob is), one organization whose only member is Carol, and no SSO
  connection in the store.
\<close>

definition alice :: UserInterface where
  "alice = \<lparr> user_id = ''u1'', user_email = ''alice@x.com'', user_name = ''Alice'',
             user_verified = False, user_admin = None \<rparr>"

definition bob :: UserInterface where
  "bob = \<lparr> user_id = ''u2'', user_email = ''bob@x.com'', user_name = ''Bob'',
           user_verified = True, user_admin = None \<rparr>"

definition acme :: OrganizationInterface where
  "acme = \<lparr> org_id = ''org_acme'',
            members = [\<lparr> member_id = ''u3'', member_role = ''admin'' \<rparr>] \<rparr>"

definition auth0_metadata :: IssuerMetadata where
  "auth0_metadata = \<lparr> issuer = Some ''https://growthbook.auth0.com/'',
                      jwks_uri = Some ''https://growthbook.auth0.com/.well-known/jwks.json'',
                      id_token_signing_alg_values_supported = Some [''RS256''] \<rparr>"

definition rotated_metadata :: IssuerMetadata where
  "rotated_metadata = \<lparr> issuer = Some ''https://growthbook.auth0.com/'',
                        jwks_uri = Some ''https://growthbook.auth0.com/.well-known/jwks2.json'',
                        id_token_signing_alg_values_supported = Some [''RS256''] \<rparr>"

text \<open>
  A stand-in for \<open>JSON.stringify\<close> on a connection: every field in declaration
  order, the inline metadata by its content (its identity is not serialized).
\<close>

definition stringify_metadata :: "IssuerMetadata \<Rightarrow> string" where
  "stringify_metadata m =
     ''{'' @ or_empty (issuer m) @ '','' @ or_empty (jwks_uri m) @ '','' @
     (case id_token_signing_alg_values_supported m of
        None \<Rightarrow> [] | Some algs \<Rightarrow> concat (map (\<lambda>a. a @ '';'') algs)) @ ''}''"

definition sample_stringify :: "SSOConnectionParams \<Rightarrow> string" where
  "sample_stringify c =
     or_empty (conn_id c) @ '','' @ or_empty (authority c) @ '','' @ clientId c @ '','' @
     or_empty (organization c) @ '','' @ or_empty (emailDomain c) @ '','' @
     or_empty (idpType c) @ '','' @
     (case metadata c of None \<Rightarrow> [] | Some m \<Rightarrow> stringify_metadata (snd m))"

definition sample_env :: "bool \<Rightarrow> env" where
  "sample_env cloud =
     \<lparr> IS_CLOUD = cloud,
       JWT_SECRET = None,
       SSO_CONFIG = None,
       getUserByEmail = (\<lambda>a. if a = ''alice@x.com'' then Some alice
                              else if a = ''bob@x.com'' then Some bob else None),
       getOrganizationById = (\<lambda>i. if i = ''org_acme'' then Some acme else None),
       getSSOConnectionById = (\<lambda>i. None),
       validateLogin = (\<lambda>r org. None),
       getRole = (\<lambda>org u. ''collaborator''),
       getDefaultPermissions = (\<lambda>p. False),
       getPermissionsByRole = (\<lambda>role p. role = ''admin''),
       discover = (\<lambda>a. Some auth0_metadata),
       JSON_stringify = sample_stringify \<rparr>"

definition sample_token :: "string \<Rightarrow> bool \<Rightarrow> IdToken" where
  "sample_token a v = \<lparr> email = Some a, email_verified = Some v,
                        given_name = None, sub = Some ''google|123'' \<rparr>"

definition sample_request :: "IdToken \<Rightarrow> (string \<rightharpoonup> string) \<Rightarrow> AuthRequest" where
  "sample_request token hs =
     \<lparr> req_user = token, headers = hs, req_email = [], req_name = [], req_verified = False,
       req_loginMethod = [], req_permissions = (\<lambda>p. False), req_userId = None,
       req_admin = None, req_organization = None, req_audit = None \<rparr>"

definition fresh_process :: process_state where
  "fresh_process = \<lparr> metadataCache = Map.empty, ssoMiddlewares = Map.empty, allocated = 0,
                     sso_calls = [], console = [] \<rparr>"

definition inline_connection :: "nat \<Rightarrow> SSOConnectionParams" where
  "inline_connection n =
     \<lparr> conn_id = Some ''okta'', authority = Some ''https://growthbook.auth0.com'',
       clientId = ''client'', organization = None, emailDomain = None, idpType = None,
       metadata = Some (n, rotated_metadata) \<rparr>"

definition discovered_connection :: SSOConnectionParams where
  "discovered_connection =
     \<lparr> conn_id = Some ''okta'', authority = Some ''https://growthbook.auth0.com'',
       clientId = ''client'', organization = None, emailDomain = None, idpType = None,
       metadata = None \<rparr>"


section \<open>Auxiliary facts\<close>

lemmas js_defs = truthy_def or_empty_def or_false_def

lemmas sample_defs = sample_env_def sample_request_def sample_token_def alice_def bob_def acme_def

lemmas eval_defs =
  processJWT_def resolveOrganization_def installDefaults_def attachUser_def
  getUserFromJWT_def getInitialDataFromJWT_def split_first_def Let_def

lemma attached_fields:
  "req_verified (attachUser user (installDefaults e req)) = or_false (email_verified (req_user req))"
  "req_admin (attachUser user (installDefaults e req)) = Some (or_false (user_admin user))"
  "req_userId (attachUser user (installDefaults e req)) = Some (user_id user)"
  "req_permissions (attachUser user (installDefaults e req)) = getDefaultPermissions e"
  "req_organization (attachUser user (installDefaults e req)) = req_organization req"
  "headers (attachUser user (installDefaults e req)) = headers req"
  by (simp_all add: attachUser_def installDefaults_def getInitialDataFromJWT_def Let_def js_defs)

lemma installDefaults_fields:
  "req_user (installDefaults e req) = req_user req"
  "req_permissions (installDefaults e req) = getDefaultPermissions e"
  "req_organization (installDefaults e req) = req_organization req"
  by (simp_all add: installDefaults_def Let_def)

lemma getUserFromJWT_email:
  assumes "email token = Some em" and "em \<noteq> []"
  shows "getUserFromJWT e token = (Inr (getUserByEmail e em), [Call_getUserByEmail em])"
  using assms by (simp add: getUserFromJWT_def js_defs)

text \<open>\<open>processJWT\<close> once the stored user is found: the gate, then the organization.\<close>

lemma processJWT_resolved:
  assumes "email (req_user req) = Some em" and "em \<noteq> []"
    and "getUserByEmail e em = Some user"
  shows "processJWT e req =
     (let req2 = attachUser user (installDefaults e req);
          pre = [Call_getDefaultPermissions, Call_getUserByEmail em]
      in if IS_CLOUD e \<and> user_verified user \<and> \<not> or_false (email_verified (req_user req))
         then (Responded 406
                 \<lparr>status = 406,
                  message = ''You must verify your email address before using GrowthBook''\<rparr>,
               req2, pre)
         else
           (let tr2 = (if \<not> user_verified user \<and> or_false (email_verified (req_user req))
                       then [Call_markUserAsVerified (user_id user)] else [])
            in case resolveOrganization e user req2 of
                 (Inl response, req3, tr3) \<Rightarrow> (response, req3, pre @ tr2 @ tr3)
               | (Inr u, req3, tr3) \<Rightarrow>
                   (Next, req3\<lparr>req_audit := Some (AuditAs user)\<rparr>, pre @ tr2 @ tr3)))"
  using assms
  by (simp add: processJWT_def Let_def installDefaults_fields attached_fields getUserFromJWT_email
        split: prod.split sum.split)

lemma resolveOrganization_cases:
  "(\<exists>r tr. resolveOrganization e user req = (Inr (), r, tr)) \<or>
   (\<exists>b r tr. resolveOrganization e user req = (Inl (Responded 403 b), r, tr)) \<or>
   (\<exists>r tr. resolveOrganization e user req =
      (Inl (Responded 404 \<lparr>status = 404, message = ''Organization not found''\<rparr>), r, tr))"
  by (simp add: resolveOrganization_def Let_def split: option.splits)

lemma resolveOrganization_no_header:
  assumes "\<not> truthy (headers req ''x-organization'')"
  shows "resolveOrganization e user req = (Inr (), req, [])"
  using assms by (simp add: resolveOrganization_def)

lemma resolveOrganization_not_found:
  assumes "headers req ''x-organization'' = Some h" and "h \<noteq> []"
    and "getOrganizationById e h = None"
  shows "resolveOrganization e user req =
           (Inl (Responded 404 \<lparr>status = 404, message = ''Organization not found''\<rparr>),
            req\<lparr>req_organization := None\<rparr>, [Call_getOrganizationById h])"
  using assms by (simp add: resolveOrganization_def Let_def js_defs)

lemma resolveOrganization_not_member:
  assumes "headers req ''x-organization'' = Some h" and "h \<noteq> []"
    and "getOrganizationById e h = Some org"
    and "req_admin req \<noteq> Some True"
    and "filter (\<lambda>m. Some (member_id m) = req_userId req) (members org) = []"
  shows "resolveOrganization e user req =
           (Inl (Responded 403
                   \<lparr>status = 403, message = ''You do not have access to that organization''\<rparr>),
            req\<lparr>req_organization := Some org\<rparr>, [Call_getOrganizationById h])"
  using assms by (simp add: resolveOrganization_def Let_def js_defs)

lemma not_member_filter:
  "(filter (\<lambda>m. member_id m = uid) ms = []) = (uid \<notin> member_id ` set ms)"
  by (auto simp: filter_empty_conv)


lemma getMetadata_hit:
  assumes "metadata p = None" and "truthy (authority p)"
    and "metadataCache st (or_empty (authority p)) = Some m"
  shows "getMetadata e p st = (Inr m, st)"
  using assms by (simp add: getMetadata_def Let_def)

lemma getMetadata_cached:
  assumes "metadata p = None" and "getMetadata e p st = (Inr m, sm)"
  shows "truthy (authority p) \<and> metadataCache sm (or_empty (authority p)) = Some m"
  using assms by (auto simp: getMetadata_def Let_def split: if_splits option.splits)

lemma getMetadata_twice:
  assumes "metadata p = None" and "metadata q = None" and "authority q = authority p"
    and "getMetadata e p st = (Inr m, sm)"
  shows "getMetadata f q sm = (Inr m, sm)"
  using getMetadata_cached [OF assms(1,4)] assms(2,3) by (simp add: getMetadata_hit)









section \<open>Email verification gate\<close>

text \<open>
  Claim C1, as the code has it. The claim names the gate with the two flags swapped. For a
  request whose token email resolves to a stored user, \<open>processJWT\<close> answers 406
  exactly when the deployment is hosted, the stored user is verified and the token does
  not claim a verified email. In that case nothing is called after the user lookup (no
  organization lookup, no write-through), the organization of the request is untouched and
  the permissions are the default ones. In particular a token with verified=true and a
  stored user with verified=false never gets the 406 response.
\<close>

theorem processJWT_406_iff_stored_verified_token_unverified:
  assumes "email (req_user req) = Some em" and "em \<noteq> []"
    and "getUserByEmail e em = Some user"
  shows "(fst (processJWT e req) =
            Responded 406 \<lparr>status = 406,
              message = ''You must verify your email address before using GrowthBook''\<rparr>)
         = (IS_CLOUD e \<and> user_verified user \<and> \<not> or_false (email_verified (req_user req)))
       \<and> (IS_CLOUD e \<and> user_verified user \<and> \<not> or_false (email_verified (req_user req)) \<longrightarrow>
            snd (snd (processJWT e req)) = [Call_getDefaultPermissions, Call_getUserByEmail em]
            \<and> req_organization (fst (snd (processJWT e req))) = req_organization req
            \<and> req_permissions (fst (snd (processJWT e req))) = getDefaultPermissions e)"
proof (cases "IS_CLOUD e \<and> user_verified user \<and> \<not> or_false (email_verified (req_user req))")
  case True
  then show ?thesis
    by (simp add: processJWT_resolved [OF assms] Let_def attached_fields)
next
  case False
  let ?r2 = "attachUser user (installDefaults e req)"
  from resolveOrganization_cases [of e user ?r2]
  have "fst (processJWT e req) \<noteq>
          Responded 406 \<lparr>status = 406,
            message = ''You must verify your email address before using GrowthBook''\<rparr>"
    using False by (auto simp: processJWT_resolved [OF assms] Let_def)
  with False show ?thesis by blast
qed

text \<open>
  The theorem on a hosted request of Bob (stored as verified) whose token is not verified
  and whose organization header names no organization: 406, and the organization is never
  looked up.
\<close>

theorem processJWT_406_witness:
  "email (req_user (sample_request (sample_token ''bob@x.com'' False)
                      [''x-organization'' \<mapsto> ''nope''])) = Some ''bob@x.com''
   \<and> getUserByEmail (sample_env True) ''bob@x.com'' = Some bob
   \<and> IS_CLOUD (sample_env True) \<and> user_verified bob
   \<and> fst (processJWT (sample_env True)
             (sample_request (sample_token ''bob@x.com'' False)
                [''x-organization'' \<mapsto> ''nope''])) =
       Responded 406 \<lparr>status = 406,
         message = ''You must verify your email address before using GrowthBook''\<rparr>
   \<and> snd (snd (processJWT (sample_env True)
                  (sample_request (sample_token ''bob@x.com'' False)
                     [''x-organization'' \<mapsto> ''nope'']))) =
       [Call_getDefaultPermissions, Call_getUserByEmail ''bob@x.com'']"
proof -
  let ?R = "sample_request (sample_token ''bob@x.com'' False) [''x-organization'' \<mapsto> ''nope'']"
  have h1: "email (req_user ?R) = Some ''bob@x.com''"
    by (simp add: sample_request_def sample_token_def)
  have h2: "''bob@x.com'' \<noteq> []" by simp
  have h3: "getUserByEmail (sample_env True) ''bob@x.com'' = Some bob"
    by (simp add: sample_env_def)
  have g: "IS_CLOUD (sample_env True) \<and> user_verified bob \<and>
           \<not> or_false (email_verified (req_user ?R))"
    by (simp add: sample_defs js_defs)
  from processJWT_406_iff_stored_verified_token_unverified [OF h1 h2 h3] g h1 h3
  show ?thesis by blast
qed

text \<open>
  The claim as written fails: hosted, token verified=true, stored verified=false (Alice).
  The request is not rejected; the user is marked as verified and the next handler runs.
\<close>

theorem processJWT_token_verified_stored_unverified_proceeds:
  "IS_CLOUD (sample_env True)
   \<and> or_false (email_verified (req_user (sample_request (sample_token ''alice@x.com'' True) Map.empty)))
   \<and> getUserByEmail (sample_env True) ''alice@x.com'' = Some alice
   \<and> \<not> user_verified alice
   \<and> fst (processJWT (sample_env True)
             (sample_request (sample_token ''alice@x.com'' True) Map.empty)) = Next
   \<and> snd (snd (processJWT (sample_env True)
                  (sample_request (sample_token ''alice@x.com'' True) Map.empty))) =
       [Call_getDefaultPermissions, Call_getUserByEmail ''alice@x.com'',
        Call_markUserAsVerified ''u1'']"
  by (simp add: eval_defs sample_defs js_defs)

text \<open>
  Claim C3, as the code has it. When the stored user is not verified and the token claims a
  verified email, \<open>processJWT\<close> calls \<open>markUserAsVerified\<close> exactly once, with the
  id of that user, and the verification gate does not reject the request: the outcome is
  the one of the organization step. So the next handler runs exactly when that step
  passes, which it does whenever the organization header is absent or empty; otherwise
  the request can still end in 403 or 404.
\<close>

theorem processJWT_marks_verified_once:
  assumes "email (req_user req) = Some em" and "em \<noteq> []"
    and "getUserByEmail e em = Some user"
    and "\<not> user_verified user" and "or_false (email_verified (req_user req))"
  shows "filter is_markUserAsVerified (snd (snd (processJWT e req))) =
           [Call_markUserAsVerified (user_id user)]
       \<and> (fst (processJWT e req) = Next
            \<or> (\<exists>b. fst (processJWT e req) = Responded 403 b)
            \<or> fst (processJWT e req) =
                 Responded 404 \<lparr>status = 404, message = ''Organization not found''\<rparr>)
       \<and> (fst (processJWT e req) = Next) =
           (fst (resolveOrganization e user (attachUser user (installDefaults e req))) = Inr ())
       \<and> (\<not> truthy (headers req ''x-organization'') \<longrightarrow> fst (processJWT e req) = Next)"
proof -
  let ?r2 = "attachUser user (installDefaults e req)"
  obtain r req3 tr3 where R: "resolveOrganization e user ?r2 = (r, req3, tr3)"
    by (cases "resolveOrganization e user ?r2") auto
  have no_mark: "filter is_markUserAsVerified tr3 = []"
    using R by (auto simp: resolveOrganization_def Let_def split: if_splits option.splits)
  have P: "processJWT e req =
             (case r of Inl response \<Rightarrow> response | Inr u \<Rightarrow> Next,
              case r of Inl response \<Rightarrow> req3 | Inr u \<Rightarrow> req3\<lparr>req_audit := Some (AuditAs user)\<rparr>,
              [Call_getDefaultPermissions, Call_getUserByEmail em,
               Call_markUserAsVerified (user_id user)] @ tr3)"
    using assms(4,5) R by (simp add: processJWT_resolved [OF assms(1-3)] Let_def split: sum.split)
  have one: "filter is_markUserAsVerified (snd (snd (processJWT e req))) =
           [Call_markUserAsVerified (user_id user)]"
    by (simp add: P no_mark)
  have shape: "fst (processJWT e req) = Next
            \<or> (\<exists>b. fst (processJWT e req) = Responded 403 b)
            \<or> fst (processJWT e req) =
                 Responded 404 \<lparr>status = 404, message = ''Organization not found''\<rparr>"
    using resolveOrganization_cases [of e user ?r2] R by (auto simp: P)
  have iff: "(fst (processJWT e req) = Next) = (fst (resolveOrganization e user ?r2) = Inr ())"
    using resolveOrganization_cases [of e user ?r2] R by (auto simp: P)
  have nohdr: "\<not> truthy (headers req ''x-organization'') \<longrightarrow> fst (processJWT e req) = Next"
    using R resolveOrganization_no_header [of ?r2 e user] by (auto simp: P attached_fields)
  from one shape iff nohdr show ?thesis by blast
qed

text \<open>
  The theorem on a self-hosted request of Alice with a verified token and no organization
  header: one write-through, and the next handler runs.
\<close>

theorem processJWT_marks_verified_once_witness:
  "email (req_user (sample_request (sample_token ''alice@x.com'' True) Map.empty)) =
     Some ''alice@x.com''
   \<and> getUserByEmail (sample_env False) ''alice@x.com'' = Some alice
   \<and> \<not> user_verified alice
   \<and> or_false (email_verified (req_user (sample_request (sample_token ''alice@x.com'' True) Map.empty)))
   \<and> filter is_markUserAsVerified
       (snd (snd (processJWT (sample_env False)
                    (sample_request (sample_token ''alice@x.com'' True) Map.empty)))) =
       [Call_markUserAsVerified (user_id alice)]
   \<and> fst (processJWT (sample_env False)
             (sample_request (sample_token ''alice@x.com'' True) Map.empty)) = Next"
proof -
  let ?R = "sample_request (sample_token ''alice@x.com'' True) Map.empty"
  have h1: "email (req_user ?R) = Some ''alice@x.com''"
    by (simp add: sample_request_def sample_token_def)
  have h2: "''alice@x.com'' \<noteq> []" by simp
  have h3: "getUserByEmail (sample_env False) ''alice@x.com'' = Some alice"
    by (simp add: sample_env_def)
  have h4: "\<not> user_verified alice" by (simp add: alice_def)
  have h5: "or_false (email_verified (req_user ?R))"
    by (simp add: sample_request_def sample_token_def js_defs)
  have h6: "\<not> truthy (headers ?R ''x-organization'')"
    by (simp add: sample_request_def js_defs)
  from processJWT_marks_verified_once [OF h1 h2 h3 h4 h5] h1 h3 h4 h5 h6
  show ?thesis by blast
qed

text \<open>
  The claim as written fails: the same user and token with an organization header that
  names no organization. The write-through happens, and the request is rejected with 404.
\<close>

theorem processJWT_marked_user_rejected_404:
  "getUserByEmail (sample_env True) ''alice@x.com'' = Some alice
   \<and> \<not> user_verified alice
   \<and> or_false (email_verified (req_user (sample_request (sample_token ''alice@x.com'' True)
                                           [''x-organization'' \<mapsto> ''nope''])))
   \<and> processJWT (sample_env True)
       (sample_request (sample_token ''alice@x.com'' True) [''x-organization'' \<mapsto> ''nope'']) =
      (Responded 404 \<lparr>status = 404, message = ''Organization not found''\<rparr>,
       attachUser alice (installDefaults (sample_env True)
         (sample_request (sample_token ''alice@x.com'' True) [''x-organization'' \<mapsto> ''nope''])),
       [Call_getDefaultPermissions, Call_getUserByEmail ''alice@x.com'',
        Call_markUserAsVerified ''u1'', Call_getOrganizationById ''nope''])"
  by (simp add: eval_defs sample_defs js_defs)

section \<open>Organization header\<close>

text \<open>
  Claim C6, as the code has it. The verification gate comes first, so the claim holds for
  the requests that pass it. For a request with a resolved user who is not an admin, not
  stopped by the 406 gate, whose non-empty organization header names an existing
  organization without a member of that user's id: the response is 403 with the body
  \<open>{status: 403, message: "You do not have access to that organization"}\<close>; the last
  call is the organization lookup, so neither \<open>validateLogin\<close>, \<open>getRole\<close> nor
  \<open>getPermissionsByRole\<close> runs, and the permissions stay the default ones.
\<close>

theorem processJWT_not_member_403:
  assumes "email (req_user req) = Some em" and "em \<noteq> []"
    and "getUserByEmail e em = Some user"
    and "\<not> (IS_CLOUD e \<and> user_verified user \<and> \<not> or_false (email_verified (req_user req)))"
    and "\<not> or_false (user_admin user)"
    and "headers req ''x-organization'' = Some h" and "h \<noteq> []"
    and "getOrganizationById e h = Some org"
    and "user_id user \<notin> set (map member_id (members org))"
  shows "fst (processJWT e req) =
           Responded 403
             \<lparr>status = 403, message = ''You do not have access to that organization''\<rparr>
       \<and> snd (snd (processJWT e req)) =
           [Call_getDefaultPermissions, Call_getUserByEmail em] @
           (if \<not> user_verified user \<and> or_false (email_verified (req_user req))
            then [Call_markUserAsVerified (user_id user)] else []) @
           [Call_getOrganizationById h]
       \<and> req_permissions (fst (snd (processJWT e req))) = getDefaultPermissions e"
proof -
  let ?r2 = "attachUser user (installDefaults e req)"
  have "resolveOrganization e user ?r2 =
           (Inl (Responded 403
                   \<lparr>status = 403, message = ''You do not have access to that organization''\<rparr>),
            ?r2\<lparr>req_organization := Some org\<rparr>, [Call_getOrganizationById h])"
    using assms(5-9)
    by (intro resolveOrganization_not_member) (simp_all add: attached_fields not_member_filter)
  then show ?thesis
    using assms(4) by (simp add: processJWT_resolved [OF assms(1-3)] Let_def attached_fields)
qed

text \<open>
  The theorem on a hosted request of Bob with a verified token for the organization of
  which only Carol is a member.
\<close>

theorem processJWT_not_member_403_witness:
  "getUserByEmail (sample_env True) ''bob@x.com'' = Some bob
   \<and> \<not> or_false (user_admin bob)
   \<and> getOrganizationById (sample_env True) ''org_acme'' = Some acme
   \<and> user_id bob \<notin> set (map member_id (members acme))
   \<and> fst (processJWT (sample_env True)
             (sample_request (sample_token ''bob@x.com'' True)
                [''x-organization'' \<mapsto> ''org_acme''])) =
       Responded 403
         \<lparr>status = 403, message = ''You do not have access to that organization''\<rparr>
   \<and> snd (snd (processJWT (sample_env True)
                  (sample_request (sample_token ''bob@x.com'' True)
                     [''x-organization'' \<mapsto> ''org_acme'']))) =
       [Call_getDefaultPermissions, Call_getUserByEmail ''bob@x.com'',
        Call_getOrganizationById ''org_acme'']"
proof -
  let ?R = "sample_request (sample_token ''bob@x.com'' True) [''x-organization'' \<mapsto> ''org_acme'']"
  have h1: "email (req_user ?R) = Some ''bob@x.com''"
    by (simp add: sample_request_def sample_token_def)
  have h2: "''bob@x.com'' \<noteq> []" by simp
  have h3: "getUserByEmail (sample_env True) ''bob@x.com'' = Some bob"
    by (simp add: sample_env_def)
  have tv: "or_false (email_verified (req_user ?R))"
    by (simp add: sample_request_def sample_token_def js_defs)
  then have h4: "\<not> (IS_CLOUD (sample_env True) \<and> user_verified bob \<and>
                   \<not> or_false (email_verified (req_user ?R)))"
    by simp
  have h5: "\<not> or_false (user_admin bob)" by (simp add: bob_def js_defs)
  have h6: "headers ?R ''x-organization'' = Some ''org_acme''"
    by (simp add: sample_request_def)
  have h7: "''org_acme'' \<noteq> []" by simp
  have h8: "getOrganizationById (sample_env True) ''org_acme'' = Some acme"
    by (simp add: sample_env_def)
  have h9: "user_id bob \<notin> set (map member_id (members acme))"
    by (simp add: bob_def acme_def)
  have v: "user_verified bob" by (simp add: bob_def)
  from processJWT_not_member_403 [OF h1 h2 h3 h4 h5 h6 h7 h8 h9] v h3 h5 h8 h9
  show ?thesis by simp
qed

text \<open>
  The claim as written fails: hosted, Bob is stored as verified, his token is not verified,
  and the header names the organization that does not have him. The response is 406, not
  403.
\<close>

theorem processJWT_not_member_406_first:
  "getUserByEmail (sample_env True) ''bob@x.com'' = Some bob
   \<and> \<not> or_false (user_admin bob)
   \<and> getOrganizationById (sample_env True) ''org_acme'' = Some acme
   \<and> user_id bob \<notin> set (map member_id (members acme))
   \<and> fst (processJWT (sample_env True)
             (sample_request (sample_token ''bob@x.com'' False)
                [''x-organization'' \<mapsto> ''org_acme''])) =
       Responded 406 \<lparr>status = 406,
         message = ''You must verify your email address before using GrowthBook''\<rparr>"
  by (simp add: eval_defs sample_defs js_defs)

text \<open>
  Claim C7, as the code has it. For a request with a resolved user that passes the 406
  gate and whose organization header is set (a non-empty value, as line 134 tests it) and
  names no organization: the response is 404
  with the message \<open>Organization not found\<close>; the last call is the organization lookup,
  so no role or permission is computed, and the permissions stay the default ones.
\<close>

theorem processJWT_org_not_found_404:
  assumes "email (req_user req) = Some em" and "em \<noteq> []"
    and "getUserByEmail e em = Some user"
    and "\<not> (IS_CLOUD e \<and> user_verified user \<and> \<not> or_false (email_verified (req_user req)))"
    and "headers req ''x-organization'' = Some h" and "h \<noteq> []"
    and "getOrganizationById e h = None"
  shows "fst (processJWT e req) =
           Responded 404 \<lparr>status = 404, message = ''Organization not found''\<rparr>
       \<and> snd (snd (processJWT e req)) =
           [Call_getDefaultPermissions, Call_getUserByEmail em] @
           (if \<not> user_verified user \<and> or_false (email_verified (req_user req))
            then [Call_markUserAsVerified (user_id user)] else []) @
           [Call_getOrganizationById h]
       \<and> req_permissions (fst (snd (processJWT e req))) = getDefaultPermissions e"
proof -
  let ?r2 = "attachUser user (installDefaults e req)"
  have "resolveOrganization e user ?r2 =
           (Inl (Responded 404 \<lparr>status = 404, message = ''Organization not found''\<rparr>),
            ?r2\<lparr>req_organization := None\<rparr>, [Call_getOrganizationById h])"
    using assms(5-7)
    by (intro resolveOrganization_not_found) (simp_all add: attached_fields)
  then show ?thesis
    using assms(4) by (simp add: processJWT_resolved [OF assms(1-3)] Let_def attached_fields)
qed

text \<open>
  The theorem on a self-hosted request of Bob, whose token is not verified, with a header
  that names no organization.
\<close>

theorem processJWT_org_not_found_404_witness:
  "getUserByEmail (sample_env False) ''bob@x.com'' = Some bob
   \<and> getOrganizationById (sample_env False) ''org_gone'' = None
   \<and> fst (processJWT (sample_env False)
             (sample_request (sample_token ''bob@x.com'' False)
                [''x-organization'' \<mapsto> ''org_gone''])) =
       Responded 404 \<lparr>status = 404, message = ''Organization not found''\<rparr>
   \<and> snd (snd (processJWT (sample_env False)
                  (sample_request (sample_token ''bob@x.com'' False)
                     [''x-organization'' \<mapsto> ''org_gone'']))) =
       [Call_getDefaultPermissions, Call_getUserByEmail ''bob@x.com'',
        Call_getOrganizationById ''org_gone'']
   \<and> req_permissions (fst (snd (processJWT (sample_env False)
                  (sample_request (sample_token ''bob@x.com'' False)
                     [''x-organization'' \<mapsto> ''org_gone''])))) =
       getDefaultPermissions (sample_env False)"
proof -
  let ?R = "sample_request (sample_token ''bob@x.com'' False) [''x-organization'' \<mapsto> ''org_gone'']"
  have h1: "email (req_user ?R) = Some ''bob@x.com''"
    by (simp add: sample_request_def sample_token_def)
  have h2: "''bob@x.com'' \<noteq> []" by simp
  have h3: "getUserByEmail (sample_env False) ''bob@x.com'' = Some bob"
    by (simp add: sample_env_def)
  have c: "\<not> IS_CLOUD (sample_env False)" by (simp add: sample_env_def)
  then have h4: "\<not> (IS_CLOUD (sample_env False) \<and> user_verified bob \<and>
                   \<not> or_false (email_verified (req_user ?R)))"
    by simp
  have h5: "headers ?R ''x-organization'' = Some ''org_gone''"
    by (simp add: sample_request_def)
  have h6: "''org_gone'' \<noteq> []" by simp
  have h7: "getOrganizationById (sample_env False) ''org_gone'' = None"
    by (simp add: sample_env_def)
  have v: "user_verified bob" by (simp add: bob_def)
  from processJWT_org_not_found_404 [OF h1 h2 h3 h4 h5 h6 h7] v h3 h7
  show ?thesis by simp
qed

text \<open>
  The claim as written fails: on the hosted request of Bob (stored as verified) with an
  unverified token, the header naming no organization gets 406, not 404, and the
  organization is never looked up.
\<close>

theorem processJWT_org_not_found_406_first:
  "getUserByEmail (sample_env True) ''bob@x.com'' = Some bob
   \<and> getOrganizationById (sample_env True) ''org_gone'' = None
   \<and> fst (processJWT (sample_env True)
             (sample_request (sample_token ''bob@x.com'' False)
                [''x-organization'' \<mapsto> ''org_gone''])) =
       Responded 406 \<lparr>status = 406,
         message = ''You must verify your email address before using GrowthBook''\<rparr>
   \<and> snd (snd (processJWT (sample_env True)
                  (sample_request (sample_token ''bob@x.com'' False)
                     [''x-organization'' \<mapsto> ''org_gone'']))) =
       [Call_getDefaultPermissions, Call_getUserByEmail ''bob@x.com'']"
  by (simp add: eval_defs sample_defs js_defs)

section \<open>Requests without a stored user\<close>

text \<open>
  Claim C9. When the token carries an email (a non-empty string; without one
  \<open>getUserFromJWT\<close> throws) and no stored user has it, \<open>processJWT\<close> calls
  \<open>next()\<close>, the permissions of the request are the default ones, and the installed
  \<open>req.audit\<close> throws the error \<open>No user in request\<close> for every argument and at
  every time.
\<close>

theorem processJWT_unknown_email_anonymous:
  assumes "email (req_user req) = Some em" and "em \<noteq> []"
    and "getUserByEmail e em = None"
  shows "fst (processJWT e req) = Next
       \<and> req_permissions (fst (snd (processJWT e req))) = getDefaultPermissions e
       \<and> audit (fst (snd (processJWT e req))) data now = Some (Inl NoUserInRequest)
       \<and> error_class_of NoUserInRequest = NoUserError"
  using assms
  by (simp add: processJWT_def Let_def installDefaults_fields getUserFromJWT_email audit_def)

text \<open>The scenario of the specification: hosted, subject \<open>google|123\<close>, unknown email.\<close>

theorem processJWT_unknown_email_anonymous_witness:
  "getUserByEmail (sample_env True) ''zed@x.com'' = None
   \<and> fst (processJWT (sample_env True)
             (sample_request (sample_token ''zed@x.com'' True) Map.empty)) = Next
   \<and> req_permissions (fst (snd (processJWT (sample_env True)
             (sample_request (sample_token ''zed@x.com'' True) Map.empty)))) =
       getDefaultPermissions (sample_env True)
   \<and> audit (fst (snd (processJWT (sample_env True)
             (sample_request (sample_token ''zed@x.com'' True) Map.empty)))) Map.empty 0 =
       Some (Inl NoUserInRequest)"
proof -
  let ?R = "sample_request (sample_token ''zed@x.com'' True) Map.empty"
  have h1: "email (req_user ?R) = Some ''zed@x.com''"
    by (simp add: sample_request_def sample_token_def)
  have h2: "''zed@x.com'' \<noteq> []" by simp
  have h3: "getUserByEmail (sample_env True) ''zed@x.com'' = None"
    by (simp add: sample_env_def)
  from processJWT_unknown_email_anonymous [OF h1 h2 h3, of Map.empty 0] h3
  show ?thesis by simp
qed

text \<open>
  Claim C10. When \<open>getUserFromJWT\<close> returns no user, \<open>processJWT\<close> calls
  \<open>next()\<close> whatever the headers are: the only calls are the default permissions and
  the user lookup (no organization lookup, hence no 404 and no 403), the organization of
  the request is untouched and the permissions are the default ones.
\<close>

theorem processJWT_anonymous_ignores_organization_header:
  assumes "fst (getUserFromJWT e (req_user req)) = Inr None"
  shows "fst (processJWT e req) = Next
       \<and> snd (snd (processJWT e req)) =
           [Call_getDefaultPermissions, Call_getUserByEmail (or_empty (email (req_user req)))]
       \<and> req_organization (fst (snd (processJWT e req))) = req_organization req
       \<and> req_permissions (fst (snd (processJWT e req))) = getDefaultPermissions e"
proof -
  have "getUserFromJWT e (req_user req) =
          (Inr None, [Call_getUserByEmail (or_empty (email (req_user req)))])"
    using assms by (simp add: getUserFromJWT_def split: if_splits)
  then show ?thesis
    by (simp add: processJWT_def Let_def installDefaults_fields)
qed

text \<open>
  The theorem on two anonymous requests: one header names no organization, the other the
  organization that does not have the caller.
\<close>

theorem processJWT_anonymous_ignores_organization_header_witness:
  "fst (getUserFromJWT (sample_env True) (sample_token ''zed@x.com'' True)) = Inr None
   \<and> getOrganizationById (sample_env True) ''org_gone'' = None
   \<and> fst (processJWT (sample_env True)
             (sample_request (sample_token ''zed@x.com'' True)
                [''x-organization'' \<mapsto> ''org_gone''])) = Next
   \<and> snd (snd (processJWT (sample_env True)
             (sample_request (sample_token ''zed@x.com'' True)
                [''x-organization'' \<mapsto> ''org_gone'']))) =
       [Call_getDefaultPermissions, Call_getUserByEmail ''zed@x.com'']
   \<and> getOrganizationById (sample_env True) ''org_acme'' = Some acme
   \<and> fst (processJWT (sample_env True)
             (sample_request (sample_token ''zed@x.com'' True)
                [''x-organization'' \<mapsto> ''org_acme''])) = Next"
proof -
  let ?T = "sample_token ''zed@x.com'' True"
  let ?R = "sample_request ?T [''x-organization'' \<mapsto> ''org_gone'']"
  let ?S = "sample_request ?T [''x-organization'' \<mapsto> ''org_acme'']"
  have t: "fst (getUserFromJWT (sample_env True) ?T) = Inr None"
    by (simp add: getUserFromJWT_def sample_env_def sample_token_def js_defs)
  have r: "req_user ?R = ?T" and s: "req_user ?S = ?T"
    by (simp_all add: sample_request_def)
  have m: "or_empty (email ?T) = ''zed@x.com''"
    by (simp add: sample_token_def js_defs)
  have o: "getOrganizationById (sample_env True) ''org_gone'' = None"
    and a: "getOrganizationById (sample_env True) ''org_acme'' = Some acme"
    by (simp_all add: sample_env_def)
  from processJWT_anonymous_ignores_organization_header [of "sample_env True" ?R]
       processJWT_anonymous_ignores_organization_header [of "sample_env True" ?S]
       t r s m o a
  show ?thesis by simp
qed

section \<open>Dispatcher, resolver and caches\<close>

text \<open>
  Claim C5. \<open>getJWTCheck\<close> returns the per-request OpenID handler exactly when the
  deployment is hosted or a static SSO configuration is present. Otherwise it returns the
  local verifier, built with the shared secret, the fixed audience and issuer
  \<open>https://api.growthbook.io\<close> and the single algorithm HS256, or, when
  \<open>JWT_SECRET\<close> is not configured, \<open>getJWTCheck\<close> itself fails with the error
  \<open>Must specify JWT_SECRET environment variable\<close>, a configuration error: the failure
  is the result of the set-up call, not of handling a request.
\<close>

theorem getJWTCheck_selection:
  "(getJWTCheck e = Inr OpenIdJWTCheck) = (IS_CLOUD e \<or> SSO_CONFIG e \<noteq> None)
   \<and> (\<not> (IS_CLOUD e \<or> SSO_CONFIG e \<noteq> None) \<longrightarrow>
        getJWTCheck e =
          (if truthy (JWT_SECRET e)
           then Inr (LocalJWTCheck
                  \<lparr> secret = SharedSecret (or_empty (JWT_SECRET e)),
                    audience = ''https://api.growthbook.io'',
                    jwt_issuer = ''https://api.growthbook.io'',
                    algorithms = [''HS256''] \<rparr>)
           else Inl MustSpecifyJWTSecret))
   \<and> error_class_of MustSpecifyJWTSecret = ConfigError"
  by (auto simp: getJWTCheck_def usingOpenId_def getOpenIdJWTCheck_def getLocalJWTCheck_def)

text \<open>
  The theorem on the self-hosted sample deployment without SSO: no secret, and the secret
  \<open>dev\<close>.
\<close>

theorem getJWTCheck_selection_witness:
  "\<not> (IS_CLOUD (sample_env False) \<or> SSO_CONFIG (sample_env False) \<noteq> None)
   \<and> getJWTCheck (sample_env False) = Inl MustSpecifyJWTSecret
   \<and> getJWTCheck ((sample_env False)\<lparr>JWT_SECRET := Some ''dev''\<rparr>) =
       Inr (LocalJWTCheck
              \<lparr> secret = SharedSecret ''dev'',
                audience = ''https://api.growthbook.io'',
                jwt_issuer = ''https://api.growthbook.io'',
                algorithms = [''HS256''] \<rparr>)
   \<and> getJWTCheck (sample_env True) = Inr OpenIdJWTCheck"
proof -
  have a: "\<not> (IS_CLOUD (sample_env False) \<or> SSO_CONFIG (sample_env False) \<noteq> None)"
    and b: "\<not> truthy (JWT_SECRET (sample_env False))"
    by (simp_all add: sample_env_def js_defs)
  have c: "\<not> (IS_CLOUD ((sample_env False)\<lparr>JWT_SECRET := Some ''dev''\<rparr>) \<or>
              SSO_CONFIG ((sample_env False)\<lparr>JWT_SECRET := Some ''dev''\<rparr>) \<noteq> None)"
    and d: "truthy (JWT_SECRET ((sample_env False)\<lparr>JWT_SECRET := Some ''dev''\<rparr>))"
    and d': "or_empty (JWT_SECRET ((sample_env False)\<lparr>JWT_SECRET := Some ''dev''\<rparr>)) = ''dev''"
    by (simp_all add: sample_env_def js_defs)
  have f: "IS_CLOUD (sample_env True)" by (simp add: sample_env_def)
  from getJWTCheck_selection [of "sample_env False"]
       getJWTCheck_selection [of "(sample_env False)\<lparr>JWT_SECRET := Some ''dev''\<rparr>"]
       getJWTCheck_selection [of "sample_env True"]
       a b c d d' f
  show ?thesis by simp
qed

text \<open>
  Claim C8. \<open>getMetadata\<close> fails with a configuration error exactly when the
  configuration has no inline metadata and no authority (an empty authority string counts
  as none); a rejected discovery is a different error. With inline metadata it returns
  that very object and leaves the process state as it was, whatever the cache holds.
\<close>

theorem getMetadata_config_error_iff:
  "(\<exists>err. fst (getMetadata e params st) = Inl err \<and> error_class_of err = ConfigError)
     = (metadata params = None \<and> \<not> truthy (authority params))
   \<and> (\<forall>m. metadata params = Some m \<longrightarrow> getMetadata e params st = (Inr m, st))"
  by (auto simp: getMetadata_def Let_def split: option.splits)

text \<open>
  The theorem on a connection with inline metadata, on a process whose cache already
  holds other metadata for the same authority, and on a connection with neither.
\<close>

theorem getMetadata_config_error_iff_witness:
  "metadata (inline_connection 7) = Some (7, rotated_metadata)
   \<and> getMetadata (sample_env True) (inline_connection 7)
       (fresh_process\<lparr>metadataCache := [''https://growthbook.auth0.com'' \<mapsto> (0, auth0_metadata)]\<rparr>) =
      (Inr (7, rotated_metadata),
       fresh_process\<lparr>metadataCache := [''https://growthbook.auth0.com'' \<mapsto> (0, auth0_metadata)]\<rparr>)
   \<and> (\<exists>err. fst (getMetadata (sample_env True) (discovered_connection\<lparr>authority := None\<rparr>)
                    fresh_process) = Inl err \<and> error_class_of err = ConfigError)"
proof -
  let ?st = "fresh_process\<lparr>metadataCache := [''https://growthbook.auth0.com'' \<mapsto> (0, auth0_metadata)]\<rparr>"
  have a: "metadata (inline_connection 7) = Some (7, rotated_metadata)"
    by (simp add: inline_connection_def)
  have b: "metadata (discovered_connection\<lparr>authority := None\<rparr>) = None \<and>
           \<not> truthy (authority (discovered_connection\<lparr>authority := None\<rparr>))"
    by (simp add: discovered_connection_def js_defs)
  from getMetadata_config_error_iff [of "sample_env True" "inline_connection 7" ?st]
       getMetadata_config_error_iff [of "sample_env True"
         "discovered_connection\<lparr>authority := None\<rparr>" fresh_process]
       a b
  show ?thesis by blast
qed

text \<open>
  Claim C2, as the code has it. On a hosted deployment, when the non-empty header
  \<open>x-auth-source-id\<close> names a connection that the store does not have, the resolver
  looks it up, writes the line \<open>Could not find SSO connection - \<close> with the id to the
  console and returns null without throwing. The request does not fall through to another
  connection: \<open>getOpenIdMiddleware\<close> throws \<open>Unknown SSO Connection\<close>, the handler
  passes that error to \<open>next\<close>, and neither cache nor the allocation count changes (no
  verifier is built, no metadata discovered).
\<close>

theorem unknown_sso_connection_fails_request:
  assumes "IS_CLOUD e" and "headers req ''x-auth-source-id'' = Some h" and "h \<noteq> []"
    and "getSSOConnectionById e h = None"
  shows "getOpenIdSettings e req st =
           (None, st\<lparr> sso_calls := sso_calls st @ [Call_getSSOConnectionById h],
                       console := console st @ [[''Could not find SSO connection - '', h]] \<rparr>)
       \<and> openIdJWTCheck e req st =
           (NextWithError UnknownSSOConnection,
            st\<lparr> sso_calls := sso_calls st @ [Call_getSSOConnectionById h],
                console := console st @ [[''Could not find SSO connection - '', h]] \<rparr>)"
  using assms
  by (simp add: openIdJWTCheck_def getOpenIdMiddleware_def getOpenIdSettings_def Let_def js_defs)

text \<open>The theorem on a hosted request whose header names the connection \<open>missing\<close>.\<close>

theorem unknown_sso_connection_fails_request_witness:
  "IS_CLOUD (sample_env True)
   \<and> getSSOConnectionById (sample_env True) ''missing'' = None
   \<and> fst (getOpenIdSettings (sample_env True)
            (sample_request (sample_token ''bob@x.com'' True) [''x-auth-source-id'' \<mapsto> ''missing''])
            fresh_process) = None
   \<and> console (snd (getOpenIdSettings (sample_env True)
            (sample_request (sample_token ''bob@x.com'' True) [''x-auth-source-id'' \<mapsto> ''missing''])
            fresh_process)) = [[''Could not find SSO connection - '', ''missing'']]
   \<and> fst (openIdJWTCheck (sample_env True)
            (sample_request (sample_token ''bob@x.com'' True) [''x-auth-source-id'' \<mapsto> ''missing''])
            fresh_process) = NextWithError UnknownSSOConnection"
proof -
  let ?R = "sample_request (sample_token ''bob@x.com'' True) [''x-auth-source-id'' \<mapsto> ''missing'']"
  have h1: "IS_CLOUD (sample_env True)" by (simp add: sample_env_def)
  have h2: "headers ?R ''x-auth-source-id'' = Some ''missing''"
    by (simp add: sample_request_def)
  have h3: "''missing'' \<noteq> []" by simp
  have h4: "getSSOConnectionById (sample_env True) ''missing'' = None"
    by (simp add: sample_env_def)
  have c: "console fresh_process = []" by (simp add: fresh_process_def)
  from unknown_sso_connection_fails_request [OF h1 h2 h3 h4, of fresh_process] h1 h4 c
  show ?thesis by simp
qed

text \<open>
  The claim as written fails: with the header naming an unknown connection the request
  ends with the error \<open>Unknown SSO Connection\<close> and no verifier is cached, while the
  same request without the header is handed to the verifier of the default hosted
  connection.
\<close>

theorem unknown_sso_connection_no_fallthrough:
  "getSSOConnectionById (sample_env True) ''okta-acme'' = None
   \<and> fst (openIdJWTCheck (sample_env True)
            (sample_request (sample_token ''bob@x.com'' True) [''x-auth-source-id'' \<mapsto> ''okta-acme''])
            fresh_process) = NextWithError UnknownSSOConnection
   \<and> allocated (snd (openIdJWTCheck (sample_env True)
            (sample_request (sample_token ''bob@x.com'' True) [''x-auth-source-id'' \<mapsto> ''okta-acme''])
            fresh_process)) = 0
   \<and> fst (openIdJWTCheck (sample_env True)
            (sample_request (sample_token ''bob@x.com'' True) Map.empty) fresh_process) =
       RunsMiddleware
         (1, \<lparr> secret = ExpressJwtSecret
                  \<lparr> jwks_cache = True, rateLimit = True, jwksRequestsPerMinute = 5,
                    jwksUri = ''https://growthbook.auth0.com/.well-known/jwks.json'' \<rparr>,
               audience = ''5xji4zoOExGgygEFlNXTwAUs3y68zU4D'',
               jwt_issuer = ''https://growthbook.auth0.com/'',
               algorithms = [''RS256''] \<rparr>)"
  by (simp add: openIdJWTCheck_def getOpenIdMiddleware_def getOpenIdSettings_def getMetadata_def
        Let_def js_defs sample_defs fresh_process_def auth0_metadata_def sample_stringify_def)





end
